theory Spec2Isabelle
  imports Complex_Main "HOL-Library.Word" "HOL-Library.Sublist" "HOL-Library.Log_Nat"
begin

section \<open>JavaScript strings\<close>

text \<open>
  A JavaScript string is a sequence of UTF-16 code units; the admin forms hold English and
  Arabic names, so the code units are kept as 16-bit words. The empty string is the only
  falsy string.
\<close>

type_synonym jsstring = "16 word list"

text \<open>
  \<open>String.prototype.trim\<close> removes the white space and line terminator code units of
  ECMAScript from both ends: TAB, LF, VT, FF, CR, SP, NBSP, U+1680, U+2000 to U+200A,
  U+2028, U+2029, U+202F, U+205F, U+3000 and U+FEFF.
\<close>

definition isWhiteSpace :: "16 word \<Rightarrow> bool" where
  "isWhiteSpace c \<longleftrightarrow>
     c = 0x9 \<or> c = 0xA \<or> c = 0xB \<or> c = 0xC \<or> c = 0xD \<or> c = 0x20 \<or> c = 0xA0 \<or>
     c = 0x1680 \<or> (0x2000 \<le> c \<and> c \<le> 0x200A) \<or> c = 0x2028 \<or> c = 0x2029 \<or>
     c = 0x202F \<or> c = 0x205F \<or> c = 0x3000 \<or> c = 0xFEFF"

definition trim :: "jsstring \<Rightarrow> jsstring" where
  "trim s = rev (dropWhile isWhiteSpace (rev (dropWhile isWhiteSpace s)))"

section \<open>The query cache\<close>

text \<open>
  Both admin screens talk to the query client of the data-fetching library
  (\<open>@tanstack/react-query\<close>). The library is not part of the repository; the three
  calls the screens make are modelled by what they do to the cache:
  \<^item> a query key is an array of strings; the keys \<open>queryKeys.categories.all\<close> and
    \<open>queryKeys.carBrands.all\<close> come from \<open>src/lib/queryClient\<close>, which is not among the
    sources, so every handler below takes its key as a parameter;
  \<^item> a cached query holds its data (\<open>undefined\<close> is \<open>None\<close>), the time the data was
    written and the invalidation mark;
  \<^item> \<open>getQueryData\<close> reads the data of the query stored under a key;
  \<^item> \<open>setQueryData\<close> takes a value or an updater function of the previous data, does
    nothing when the new data is \<open>undefined\<close>, and otherwise stores the data as a
    fresh successful result (written now, not invalidated);
  \<^item> \<open>invalidateQueries\<close> marks every cached query whose key starts with the given key.
\<close>

type_synonym query_key = "jsstring list"

record 'd query_state =
  data :: "'d option"
  dataUpdatedAt :: int
  isInvalidated :: bool

type_synonym 'd query_cache = "query_key \<rightharpoonup> 'd query_state"

datatype 'd updater = Value "'d option" | Updater "'d option \<Rightarrow> 'd option"

definition functionalUpdate :: "'d updater \<Rightarrow> 'd option \<Rightarrow> 'd option" where
  "functionalUpdate u prev = (case u of Value v \<Rightarrow> v | Updater f \<Rightarrow> f prev)"

definition getQueryData :: "query_key \<Rightarrow> 'd query_cache \<Rightarrow> 'd option" where
  "getQueryData key c = (case c key of None \<Rightarrow> None | Some q \<Rightarrow> data q)"

definition setQueryData :: "int \<Rightarrow> query_key \<Rightarrow> 'd updater \<Rightarrow> 'd query_cache \<Rightarrow> 'd query_cache" where
  "setQueryData now key u c =
     (case functionalUpdate u (getQueryData key c) of
        None \<Rightarrow> c
      | Some d \<Rightarrow> c(key \<mapsto> \<lparr>data = Some d, dataUpdatedAt = now, isInvalidated = False\<rparr>))"

definition invalidateQueries :: "query_key \<Rightarrow> 'd query_cache \<Rightarrow> 'd query_cache" where
  "invalidateQueries key c =
     (\<lambda>k. case c k of
            None \<Rightarrow> None
          | Some q \<Rightarrow> if prefix key k then Some (q\<lparr>isInvalidated := True\<rparr>) else Some q)"

text \<open>Whether the query stored under a key carries the invalidation mark.\<close>

definition invalidated :: "query_key \<Rightarrow> 'd query_cache \<Rightarrow> bool" where
  "invalidated key c = (case c key of None \<Rightarrow> False | Some q \<Rightarrow> isInvalidated q)"

section \<open>The admin screens: data\<close>

text \<open>
  The records listed by the two screens. \<open>interface Category\<close> has \<open>id\<close>, \<open>name\<close>,
  \<open>name_ar\<close>, \<open>parent_id\<close>, \<open>icon\<close> and \<open>image_data\<close>; \<open>interface CarBrand\<close> has \<open>id\<close>,
  \<open>name\<close>, \<open>name_ar\<close> and \<open>logo\<close>. The three fields they share are the base record (with
  the prefix \<open>item_\<close>, since \<open>id\<close>, \<open>name\<close> and \<open>icon\<close> are taken); an absent optional
  field and \<open>null\<close> are both \<open>None\<close>.
\<close>

record admin_item =
  item_id :: jsstring
  item_name :: jsstring
  item_name_ar :: jsstring

record category = admin_item +
  parent_id :: "jsstring option"
  item_icon :: "jsstring option"
  image_data :: "jsstring option"

record car_brand = admin_item +
  logo :: "jsstring option"

text \<open>The objects \<open>categoryData\<close> and \<open>brandData\<close> that \<open>handleSave\<close> builds.\<close>

record save_data =
  data_name :: jsstring
  data_name_ar :: jsstring

record category_data = save_data +
  data_parent_id :: "jsstring option"
  data_icon :: "jsstring option"
  data_image_data :: "jsstring option"

record brand_data = save_data +
  data_logo :: "jsstring option"

text \<open>
  The calls that leave the screens: the admin sync service (\<open>adminSync\<close>) and
  \<open>carBrandsApi.update\<close>. Neither is among the sources. Each screen logs the calls it
  makes, in order; what a call answers is an input of the mutation that makes it: it
  resolves with a result or it rejects (throws).
\<close>

datatype remote_call =
    CreateCategory category_data
  | UpdateCategory jsstring category_data
  | DeleteCategory jsstring
  | CreateCarBrand brand_data
  | UpdateCarBrand jsstring brand_data
  | DeleteCarBrand jsstring

record sync_result =
  success :: bool
  error :: "jsstring option"

datatype 'r outcome = Resolved 'r | Rejected

datatype toast_type = SuccessToast | ErrorToast | WarningToast | InfoToast

text \<open>
  The state of a screen: the form fields both screens have, the toast (its localised
  message text is left out), the query client and the log of remote calls. The
  categories screen adds the parent, the icon name and the image; the car brands screen
  adds the logo.
\<close>

record 'r admin_screen =
  name :: jsstring
  nameAr :: jsstring
  isEditMode :: bool
  toastVisible :: bool
  toastType :: toast_type
  queryClient :: "'r list query_cache"
  remote :: "remote_call list"

record categories_admin = "category admin_screen" +
  parentId :: "jsstring option"
  icon :: jsstring
  categoryImage :: jsstring
  editingCategory :: "category option"

record car_brands_admin = "car_brand admin_screen" +
  logoImage :: jsstring
  editingBrand :: "car_brand option"

definition showToast :: "toast_type \<Rightarrow> ('r, 'z) admin_screen_scheme \<Rightarrow> ('r, 'z) admin_screen_scheme" where
  "showToast ty st = st\<lparr>toastType := ty, toastVisible := True\<rparr>"

section \<open>Categories admin\<close>

definition cat_resetForm :: "categories_admin \<Rightarrow> categories_admin" where
  "cat_resetForm st =
     st\<lparr>name := [], nameAr := [], parentId := None, icon := [], categoryImage := [],
        isEditMode := False, editingCategory := None\<rparr>"

subsection \<open>deleteMutation\<close>

text \<open>
  \<open>onMutate\<close> cancels the running fetches of the key (no effect on cached data), reads
  the snapshot, removes the record optimistically and returns the snapshot as the
  mutation's context.
\<close>

definition cat_delete_onMutate ::
  "query_key \<Rightarrow> int \<Rightarrow> jsstring \<Rightarrow> categories_admin \<Rightarrow> categories_admin \<times> category list option" where
  "cat_delete_onMutate key now deletedId st =
     (let previousCategories = getQueryData key (queryClient st) in
      (st\<lparr>queryClient :=
            setQueryData now key
              (Updater (\<lambda>old. case old of
                                 Some cs \<Rightarrow> Some (filter (\<lambda>c. item_id c \<noteq> deletedId) cs)
                               | None \<Rightarrow> Some []))
              (queryClient st)\<rparr>,
       previousCategories))"

definition cat_delete_onSuccess :: "query_key \<Rightarrow> sync_result \<Rightarrow> categories_admin \<Rightarrow> categories_admin" where
  "cat_delete_onSuccess key result st =
     (if success result then showToast SuccessToast st
      else (showToast ErrorToast st)\<lparr>queryClient := invalidateQueries key (queryClient st)\<rparr>)"

definition cat_delete_onError ::
  "query_key \<Rightarrow> int \<Rightarrow> category list option \<Rightarrow> categories_admin \<Rightarrow> categories_admin" where
  "cat_delete_onError key now previousCategories st =
     showToast ErrorToast
       (case previousCategories of
          Some cs \<Rightarrow> st\<lparr>queryClient := setQueryData now key (Value (Some cs)) (queryClient st)\<rparr>
        | None \<Rightarrow> st)"

text \<open>
  One run of the mutation, as the library drives it: \<open>onMutate\<close> at time \<open>t1\<close>, the
  remote call, then \<open>onSuccess\<close> or \<open>onError\<close> at time \<open>t2\<close>. Nothing else writes
  the cache between the two steps of the run.
\<close>

definition cat_deleteMutation ::
  "query_key \<Rightarrow> int \<Rightarrow> int \<Rightarrow> sync_result outcome \<Rightarrow> jsstring \<Rightarrow> categories_admin \<Rightarrow> categories_admin" where
  "cat_deleteMutation key t1 t2 answer deletedId st =
     (case cat_delete_onMutate key t1 deletedId st of
        (st1, context) \<Rightarrow>
          (let st2 = st1\<lparr>remote := remote st1 @ [DeleteCategory deletedId]\<rparr> in
           case answer of
             Resolved result \<Rightarrow> cat_delete_onSuccess key result st2
           | Rejected \<Rightarrow> cat_delete_onError key t2 context st2))"

subsection \<open>createMutation and updateMutation\<close>

definition cat_create_onSuccess :: "query_key \<Rightarrow> sync_result \<Rightarrow> categories_admin \<Rightarrow> categories_admin" where
  "cat_create_onSuccess key result st =
     (if success result
      then cat_resetForm
             (showToast SuccessToast (st\<lparr>queryClient := invalidateQueries key (queryClient st)\<rparr>))
      else showToast ErrorToast st)"

definition cat_createMutation ::
  "query_key \<Rightarrow> sync_result outcome \<Rightarrow> category_data \<Rightarrow> categories_admin \<Rightarrow> categories_admin" where
  "cat_createMutation key answer categoryData st =
     (let st1 = st\<lparr>remote := remote st @ [CreateCategory categoryData]\<rparr> in
      case answer of
        Resolved result \<Rightarrow> cat_create_onSuccess key result st1
      | Rejected \<Rightarrow> showToast ErrorToast st1)"

definition cat_update_onSuccess :: "query_key \<Rightarrow> sync_result \<Rightarrow> categories_admin \<Rightarrow> categories_admin" where
  "cat_update_onSuccess key result st =
     (if success result
      then cat_resetForm
             (showToast SuccessToast (st\<lparr>queryClient := invalidateQueries key (queryClient st)\<rparr>))
      else showToast ErrorToast st)"

definition cat_updateMutation ::
  "query_key \<Rightarrow> sync_result outcome \<Rightarrow> jsstring \<Rightarrow> category_data \<Rightarrow> categories_admin \<Rightarrow> categories_admin" where
  "cat_updateMutation key answer ident categoryData st =
     (let st1 = st\<lparr>remote := remote st @ [UpdateCategory ident categoryData]\<rparr> in
      case answer of
        Resolved result \<Rightarrow> cat_update_onSuccess key result st1
      | Rejected \<Rightarrow> showToast ErrorToast st1)"

subsection \<open>handleSave\<close>

text \<open>
  \<open>handleSave\<close> either shows the error toast and returns, or hands one request to
  \<open>updateMutation.mutate\<close> (in edit mode with a category being edited) or to
  \<open>createMutation.mutate\<close>. The request it issues, if any, is returned beside the state.
\<close>

datatype 'd save_request = CreateRequest 'd | UpdateRequest jsstring 'd

definition cat_handleSave :: "categories_admin \<Rightarrow> categories_admin \<times> category_data save_request option" where
  "cat_handleSave st =
     (if trim (name st) = [] \<or> trim (nameAr st) = [] then (showToast ErrorToast st, None)
      else
        (let categoryData =
               \<lparr>data_name = trim (name st),
                data_name_ar = trim (nameAr st),
                data_parent_id = parentId st,
                data_icon = (if trim (icon st) = [] then None else Some (trim (icon st))),
                data_image_data = (if categoryImage st = [] then None else Some (categoryImage st))\<rparr>
         in (st, Some (case (isEditMode st, editingCategory st) of
                         (True, Some c) \<Rightarrow> UpdateRequest (item_id c) categoryData
                       | _ \<Rightarrow> CreateRequest categoryData))))"

text \<open>The payload of a request, and the remote call that the mutation of a request makes.\<close>

definition request_data :: "'d save_request \<Rightarrow> 'd" where
  "request_data req = (case req of CreateRequest d \<Rightarrow> d | UpdateRequest i d \<Rightarrow> d)"

definition cat_call :: "category_data save_request \<Rightarrow> remote_call" where
  "cat_call req =
     (case req of CreateRequest d \<Rightarrow> CreateCategory d | UpdateRequest i d \<Rightarrow> UpdateCategory i d)"

definition brand_call :: "brand_data save_request \<Rightarrow> remote_call" where
  "brand_call req =
     (case req of CreateRequest d \<Rightarrow> CreateCarBrand d | UpdateRequest i d \<Rightarrow> UpdateCarBrand i d)"

text \<open>Pressing Save: \<open>handleSave\<close>, then the run of the mutation it issued.\<close>

definition cat_pressSave :: "query_key \<Rightarrow> sync_result outcome \<Rightarrow> categories_admin \<Rightarrow> categories_admin" where
  "cat_pressSave key answer st =
     (case cat_handleSave st of
        (st1, None) \<Rightarrow> st1
      | (st1, Some (CreateRequest d)) \<Rightarrow> cat_createMutation key answer d st1
      | (st1, Some (UpdateRequest i d)) \<Rightarrow> cat_updateMutation key answer i d st1)"

section \<open>Car brands admin\<close>

definition brand_resetForm :: "car_brands_admin \<Rightarrow> car_brands_admin" where
  "brand_resetForm st =
     st\<lparr>name := [], nameAr := [], logoImage := [], isEditMode := False, editingBrand := None\<rparr>"

subsection \<open>deleteMutation\<close>

definition brand_delete_onMutate ::
  "query_key \<Rightarrow> int \<Rightarrow> jsstring \<Rightarrow> car_brands_admin \<Rightarrow> car_brands_admin \<times> car_brand list option" where
  "brand_delete_onMutate key now deletedId st =
     (let previousBrands = getQueryData key (queryClient st) in
      (st\<lparr>queryClient :=
            setQueryData now key
              (Updater (\<lambda>old. case old of
                                 Some bs \<Rightarrow> Some (filter (\<lambda>b. item_id b \<noteq> deletedId) bs)
                               | None \<Rightarrow> Some []))
              (queryClient st)\<rparr>,
       previousBrands))"

definition brand_delete_onSuccess :: "query_key \<Rightarrow> sync_result \<Rightarrow> car_brands_admin \<Rightarrow> car_brands_admin" where
  "brand_delete_onSuccess key result st =
     (if success result then showToast SuccessToast st
      else (showToast ErrorToast st)\<lparr>queryClient := invalidateQueries key (queryClient st)\<rparr>)"

definition brand_delete_onError ::
  "query_key \<Rightarrow> int \<Rightarrow> car_brand list option \<Rightarrow> car_brands_admin \<Rightarrow> car_brands_admin" where
  "brand_delete_onError key now previousBrands st =
     showToast ErrorToast
       (case previousBrands of
          Some bs \<Rightarrow> st\<lparr>queryClient := setQueryData now key (Value (Some bs)) (queryClient st)\<rparr>
        | None \<Rightarrow> st)"

definition brand_deleteMutation ::
  "query_key \<Rightarrow> int \<Rightarrow> int \<Rightarrow> sync_result outcome \<Rightarrow> jsstring \<Rightarrow> car_brands_admin \<Rightarrow> car_brands_admin" where
  "brand_deleteMutation key t1 t2 answer deletedId st =
     (case brand_delete_onMutate key t1 deletedId st of
        (st1, context) \<Rightarrow>
          (let st2 = st1\<lparr>remote := remote st1 @ [DeleteCarBrand deletedId]\<rparr> in
           case answer of
             Resolved result \<Rightarrow> brand_delete_onSuccess key result st2
           | Rejected \<Rightarrow> brand_delete_onError key t2 context st2))"

subsection \<open>createMutation and updateMutation\<close>

definition brand_create_onSuccess :: "query_key \<Rightarrow> sync_result \<Rightarrow> car_brands_admin \<Rightarrow> car_brands_admin" where
  "brand_create_onSuccess key result st =
     (if success result
      then brand_resetForm
             (showToast SuccessToast (st\<lparr>queryClient := invalidateQueries key (queryClient st)\<rparr>))
      else showToast ErrorToast st)"

definition brand_createMutation ::
  "query_key \<Rightarrow> sync_result outcome \<Rightarrow> brand_data \<Rightarrow> car_brands_admin \<Rightarrow> car_brands_admin" where
  "brand_createMutation key answer brandData st =
     (let st1 = st\<lparr>remote := remote st @ [CreateCarBrand brandData]\<rparr> in
      case answer of
        Resolved result \<Rightarrow> brand_create_onSuccess key result st1
      | Rejected \<Rightarrow> showToast ErrorToast st1)"

text \<open>
  The update goes to \<open>carBrandsApi.update\<close> directly; its \<open>onSuccess\<close> takes no argument
  and does not look at what the call resolved with.
\<close>

definition brand_update_onSuccess :: "query_key \<Rightarrow> car_brands_admin \<Rightarrow> car_brands_admin" where
  "brand_update_onSuccess key st =
     brand_resetForm
       (showToast SuccessToast (st\<lparr>queryClient := invalidateQueries key (queryClient st)\<rparr>))"

definition brand_updateMutation ::
  "query_key \<Rightarrow> 'x outcome \<Rightarrow> jsstring \<Rightarrow> brand_data \<Rightarrow> car_brands_admin \<Rightarrow> car_brands_admin" where
  "brand_updateMutation key answer ident brandData st =
     (let st1 = st\<lparr>remote := remote st @ [UpdateCarBrand ident brandData]\<rparr> in
      case answer of
        Resolved response_data \<Rightarrow> brand_update_onSuccess key st1
      | Rejected \<Rightarrow> showToast ErrorToast st1)"

subsection \<open>handleSave\<close>

definition brand_handleSave :: "car_brands_admin \<Rightarrow> car_brands_admin \<times> brand_data save_request option" where
  "brand_handleSave st =
     (if trim (name st) = [] \<or> trim (nameAr st) = [] then (showToast ErrorToast st, None)
      else
        (let brandData =
               \<lparr>data_name = trim (name st),
                data_name_ar = trim (nameAr st),
                data_logo = (if logoImage st = [] then None else Some (logoImage st))\<rparr>
         in (st, Some (case (isEditMode st, editingBrand st) of
                         (True, Some b) \<Rightarrow> UpdateRequest (item_id b) brandData
                       | _ \<Rightarrow> CreateRequest brandData))))"

definition brand_pressSave :: "query_key \<Rightarrow> sync_result outcome \<Rightarrow> car_brands_admin \<Rightarrow> car_brands_admin" where
  "brand_pressSave key answer st =
     (case brand_handleSave st of
        (st1, None) \<Rightarrow> st1
      | (st1, Some (CreateRequest d)) \<Rightarrow> brand_createMutation key answer d st1
      | (st1, Some (UpdateRequest i d)) \<Rightarrow> brand_updateMutation key answer i d st1)"

section \<open>Staleness windows\<close>

text \<open>
  Every \<open>useQuery\<close> call of the sources, with the \<open>staleTime\<close> it passes, in
  milliseconds: the eight queries of \<open>useHomeScreenQuery\<close>, \<open>useCategoriesTreeQuery\<close>,
  and the list queries of the two admin screens.
\<close>

datatype query_site =
    HomeCategories | HomeCarBrands | HomeCarModels | HomeProductBrands | HomeProducts
  | HomePartners | HomeFavorites | HomeBanners | CategoriesTree
  | AdminCategories | AdminCarBrands

fun staleTime :: "query_site \<Rightarrow> int" where
  "staleTime HomeCategories = 5 * 60 * 1000"
| "staleTime HomeCarBrands = 5 * 60 * 1000"
| "staleTime HomeCarModels = 5 * 60 * 1000"
| "staleTime HomeProductBrands = 5 * 60 * 1000"
| "staleTime HomeProducts = 2 * 60 * 1000"
| "staleTime HomePartners = 5 * 60 * 1000"
| "staleTime HomeFavorites = 2 * 60 * 1000"
| "staleTime HomeBanners = 2 * 60 * 1000"
| "staleTime CategoriesTree = 5 * 60 * 1000"
| "staleTime AdminCategories = 2 * 60 * 1000"
| "staleTime AdminCarBrands = 2 * 60 * 1000"

text \<open>The collection a query reads.\<close>

datatype collection =
  Categories | CarBrands | CarModels | ProductBrands | Products | Partners | Favorites | Banners

fun collection_of :: "query_site \<Rightarrow> collection" where
  "collection_of HomeCategories = Categories"
| "collection_of HomeCarBrands = CarBrands"
| "collection_of HomeCarModels = CarModels"
| "collection_of HomeProductBrands = ProductBrands"
| "collection_of HomeProducts = Products"
| "collection_of HomePartners = Partners"
| "collection_of HomeFavorites = Favorites"
| "collection_of HomeBanners = Banners"
| "collection_of CategoriesTree = Categories"
| "collection_of AdminCategories = Categories"
| "collection_of AdminCarBrands = CarBrands"

text \<open>The favorites query is enabled only for a logged-in user; the others always.\<close>

fun enabled :: "bool \<Rightarrow> query_site \<Rightarrow> bool" where
  "enabled user HomeFavorites = user"
| "enabled user site = True"

text \<open>
  What the library does with \<open>staleTime\<close> when a component reads a query (the library's
  rule, with its default options): the cached data is returned at once; a fetch is
  started when the query is enabled and stale; a query is stale when it is invalidated,
  has no data, or its data was written \<open>staleTime\<close> or more milliseconds ago.
\<close>

definition isStaleByTime :: "int \<Rightarrow> int \<Rightarrow> 'd query_state \<Rightarrow> bool" where
  "isStaleByTime stale now q \<longleftrightarrow>
     isInvalidated q \<or> data q = None \<or> dataUpdatedAt q + stale \<le> now"

record 'd query_read =
  returned :: "'d option"
  fetches :: bool

definition useQuery :: "bool \<Rightarrow> query_site \<Rightarrow> query_key \<Rightarrow> int \<Rightarrow> 'd query_cache \<Rightarrow> 'd query_read" where
  "useQuery user site key now c =
     (case c key of
        None \<Rightarrow> \<lparr>returned = None, fetches = enabled user site\<rparr>
      | Some q \<Rightarrow>
          \<lparr>returned = data q,
           fetches = (enabled user site \<and> isStaleByTime (staleTime site) now q)\<rparr>)"

section \<open>Local database models\<close>

text \<open>
  The model classes map the tables of the local database. Three of their columns hold
  JSON text and are declared \<open>string | null\<close>: \<open>variants\<close> of \<open>CarModel\<close>, and \<open>images\<close>
  and \<open>carModelIds\<close> of \<open>Product\<close>. Each has a getter that parses it.
\<close>

subsection \<open>The parsing getters\<close>

text \<open>
  The value \<open>JSON.parse\<close> returns. \<open>JSON.parse\<close> itself belongs to the language; the
  getters take it as a parameter that answers with the parsed value or with the
  \<open>SyntaxError\<close> it throws.
\<close>

datatype json =
    JNull | JBool bool | JNumber real | JString jsstring
  | JArray "json list" | JObject "(jsstring \<times> json) list"







section \<open>The cart tab\<close>

text \<open>
  Of a cart item the tab's quantity controls read \<open>product_id\<close> and \<open>quantity\<close>. The
  quantity is a JavaScript number that holds an integer (the local model's \<open>quantity\<close>
  column; the spec's integer that is not negative); the record keeps that integer.
\<close>

record cart_item =
  product_id :: jsstring
  quantity :: int

text \<open>
  A JavaScript number is an IEEE 754 double with a significand of 53 bits, so around an
  integer of more than 53 bits the doubles are a power of two apart. The result of an
  addition or subtraction is the double nearest to the exact result, and of two equally
  near doubles the one with the even significand. \<open>round_double\<close> is that rounding on
  integers; adding or subtracting 1 never leaves the finite doubles.
\<close>

definition round_double :: "int \<Rightarrow> int" where
  "round_double n =
     (let u = 2 ^ (nat (bitlen \<bar>n\<bar>) - 53); q = n div u; r = n mod u in
      if 2 * r < u then q * u
      else if u < 2 * r then (q + 1) * u
      else if even q then q * u
      else (q + 1) * u)"

text \<open>
  What the tab does on a press is a call of one of its props \<open>onUpdateQuantity\<close> and
  \<open>onRemove\<close>; the call is the value of the press. The minus button asks for
  \<open>item.quantity - 1\<close>, the plus button for \<open>item.quantity + 1\<close>.
\<close>

datatype cart_call = UpdateQuantity jsstring int | Remove jsstring

definition press_decrement :: "cart_item \<Rightarrow> cart_call" where
  "press_decrement item = UpdateQuantity (product_id item) (round_double (quantity item - 1))"

definition press_increment :: "cart_item \<Rightarrow> cart_call" where
  "press_increment item = UpdateQuantity (product_id item) (round_double (quantity item + 1))"

definition press_remove :: "cart_item \<Rightarrow> cart_call" where
  "press_remove item = Remove (product_id item)"

text \<open>
  The props the order summary reads. Amounts are JavaScript numbers, taken as reals. A
  money text shows an amount through \<open>toFixed(0)\<close>, followed by the currency sign; the
  savings row puts a minus sign before it.
\<close>

record cart_tab_props =
  cartItems :: "cart_item list"
  getSubtotal :: "unit \<Rightarrow> real"
  getOriginalTotal :: "unit \<Rightarrow> real"
  getTotalSavings :: "unit \<Rightarrow> real"
  getItemCount :: "unit \<Rightarrow> real"
  isRTL :: bool

definition SHIPPING_COST :: real where
  "SHIPPING_COST = 150"

datatype money_text = ToFixed0 real | MinusToFixed0 real

record order_summary =
  savings_row :: "money_text option"
  subtotal_row :: money_text
  shipping_row :: money_text
  total_row :: money_text

definition OrderSummary :: "cart_tab_props \<Rightarrow> order_summary" where
  "OrderSummary props =
     \<lparr>savings_row =
        (if getTotalSavings props () > 0 then Some (MinusToFixed0 (getTotalSavings props ()))
         else None),
      subtotal_row = ToFixed0 (getSubtotal props ()),
      shipping_row = ToFixed0 SHIPPING_COST,
      total_row = ToFixed0 (getSubtotal props () + SHIPPING_COST)\<rparr>"

text \<open>The list footer shows the order summary only under a cart that has items.\<close>

definition ListFooterComponent :: "cart_tab_props \<Rightarrow> order_summary option" where
  "ListFooterComponent props =
     (if length (cartItems props) > 0 then Some (OrderSummary props) else None)"

subsection \<open>The cart store behind the tab\<close>

text \<open>
  Modelled from the spec: the handler passed to the tab as \<open>onRemove\<close> is not among the
  sources (the tab only calls it). The spec says a cart item is created, updated and
  deleted purely locally, and deleted when the item is removed.
\<close>

definition removeFromCart :: "jsstring \<Rightarrow> cart_item list \<Rightarrow> cart_item list" where
  "removeFromCart p cart = filter (\<lambda>i. product_id i \<noteq> p) cart"

text \<open>
  Modelled from the spec: the handler passed to the tab as \<open>onUpdateQuantity\<close> is not
  among the sources (the tab only calls it). The spec says: deletion when the quantity
  reaches 0; the record must be removed, not left at quantity 0; a quantity is an
  integer that is not negative. Any other quantity is stored on the records of the
  product.
\<close>

definition updateQuantity :: "jsstring \<Rightarrow> int \<Rightarrow> cart_item list \<Rightarrow> cart_item list" where
  "updateQuantity p q cart =
     (if q \<le> 0 then removeFromCart p cart
      else map (\<lambda>i. if product_id i = p then i\<lparr>quantity := q\<rparr> else i) cart)"

text \<open>A call of the tab reaches the handler of its prop.\<close>

fun cart_handle :: "cart_call \<Rightarrow> cart_item list \<Rightarrow> cart_item list" where
  "cart_handle (UpdateQuantity p q) cart = updateQuantity p q cart"
| "cart_handle (Remove p) cart = removeFromCart p cart"

text \<open>
  One \<open>decrement\<close>: the press of the minus button on the card of product \<open>p\<close>, handled
  by the store. Without such a card there is nothing to press.
\<close>

definition decrement :: "jsstring \<Rightarrow> cart_item list \<Rightarrow> cart_item list" where
  "decrement p cart =
     (case find (\<lambda>i. product_id i = p) cart of
        None \<Rightarrow> cart
      | Some item \<Rightarrow> cart_handle (press_decrement item) cart)"

section \<open>The pull reconciler\<close>

text \<open>
  The sources declare the local models and the \<open>sync_metadata\<close> table; the code that
  pulls is not among them. A local record, as far as the reconciler looks at it: the
  server identifier, the time of the last update, the dirty flag of the record store
  (locally modified, not yet pushed), and the remaining fields. A remote record has no
  dirty flag.
\<close>

record 'f local_record =
  serverId :: jsstring
  updatedAt :: int
  dirty :: bool
  content :: 'f

record 'f remote_record =
  remote_serverId :: jsstring
  remote_updatedAt :: int
  remote_fields :: 'f

text \<open>
  Modelled from the spec: the put of the Local Record Store when the Pull Reconciler
  calls it, which is not among the sources. The spec (4.1) says a put inserts or
  replaces the record and marks it clean when the reconciler calls it.
\<close>

definition put_clean :: "'f remote_record \<Rightarrow> 'f local_record" where
  "put_clean r =
     \<lparr>serverId = remote_serverId r, updatedAt = remote_updatedAt r, dirty = False,
      content = remote_fields r\<rparr>"

text \<open>
  Modelled from the spec: the Pull Reconciler's handling of one remote record, which is
  not among the sources. The spec (4.3) says: if no local record with matching
  \<open>serverId\<close> exists, insert; if the local record exists and is not dirty, overwrite the
  fields and keep the \<open>serverId\<close>; if it exists and is dirty, compare \<open>updatedAt\<close>: the
  remote wins only if strictly newer, otherwise the local dirty copy is preserved and
  queued for push.
\<close>

fun reconcile :: "'f remote_record \<Rightarrow> 'f local_record list \<Rightarrow> 'f local_record list" where
  "reconcile r [] = [put_clean r]"
| "reconcile r (l # ls) =
     (if serverId l = remote_serverId r then
        (if \<not> dirty l then put_clean r # ls
         else if updatedAt l < remote_updatedAt r then put_clean r # ls
         else l # ls)
      else l # reconcile r ls)"

text \<open>The record the store holds under a server identifier.\<close>

definition lookup_record :: "jsstring \<Rightarrow> 'f local_record list \<Rightarrow> 'f local_record option" where
  "lookup_record sid store = find (\<lambda>l. serverId l = sid) store"

section \<open>Example data\<close>

text \<open>
  Concrete inputs at which the theorems below are evaluated. Strings are written by
  their code units: \<open>0x31\<close> is the digit 1, \<open>0x45\<close> the letter E, \<open>0x645\<close> the Arabic
  letter meem, \<open>0x20\<close> a space.
\<close>

definition demo_key :: query_key where
  "demo_key = [[0x63, 0x61, 0x74]]"

definition other_key :: query_key where
  "other_key = [[0x78]]"

definition engine :: category where
  "engine =
     \<lparr>item_id = [0x31], item_name = [0x45], item_name_ar = [0x645],
      parent_id = None, item_icon = None, image_data = None\<rparr>"

definition brakes :: category where
  "brakes =
     \<lparr>item_id = [0x32], item_name = [0x42], item_name_ar = [0x641],
      parent_id = Some [0x31], item_icon = None, image_data = None\<rparr>"

definition brand_one :: car_brand where
  "brand_one = \<lparr>item_id = [0x31], item_name = [0x4B], item_name_ar = [0x643], logo = None\<rparr>"

definition brand_two :: car_brand where
  "brand_two = \<lparr>item_id = [0x32], item_name = [0x54], item_name_ar = [0x62A], logo = None\<rparr>"

text \<open>A cache that holds a list under the demo key, and one whose query has no data yet.\<close>

definition loaded :: "'r list \<Rightarrow> 'r list query_cache" where
  "loaded rs = [demo_key \<mapsto> \<lparr>data = Some rs, dataUpdatedAt = 0, isInvalidated = False\<rparr>]"

definition loading :: "'r list query_cache" where
  "loading = [demo_key \<mapsto> \<lparr>data = None, dataUpdatedAt = 0, isInvalidated = False\<rparr>]"

text \<open>A screen with the given names in its form, over the given cache.\<close>

definition categories_screen :: "jsstring \<Rightarrow> jsstring \<Rightarrow> category list query_cache \<Rightarrow> categories_admin" where
  "categories_screen n na c =
     \<lparr>name = n, nameAr = na, isEditMode = False, toastVisible = False,
      toastType = SuccessToast, queryClient = c, remote = [],
      parentId = None, icon = [], categoryImage = [], editingCategory = None\<rparr>"

definition brands_screen :: "jsstring \<Rightarrow> jsstring \<Rightarrow> car_brand list query_cache \<Rightarrow> car_brands_admin" where
  "brands_screen n na c =
     \<lparr>name = n, nameAr = na, isEditMode = False, toastVisible = False,
      toastType = SuccessToast, queryClient = c, remote = [],
      logoImage = [], editingBrand = None\<rparr>"

definition ok_result :: sync_result where
  "ok_result = \<lparr>success = True, error = None\<rparr>"

definition failed_result :: sync_result where
  "failed_result = \<lparr>success = False, error = Some [0x45]\<rparr>"


definition demo_cart :: "cart_item list" where
  "demo_cart =
     [\<lparr>product_id = [0x31], quantity = 2\<rparr>, \<lparr>product_id = [0x32], quantity = 1\<rparr>]"

definition demo_props :: cart_tab_props where
  "demo_props =
     \<lparr>cartItems = demo_cart, getSubtotal = (\<lambda>u. 100), getOriginalTotal = (\<lambda>u. 120),
      getTotalSavings = (\<lambda>u. 20), getItemCount = (\<lambda>u. 3), isRTL = False\<rparr>"

definition demo_local :: "nat local_record" where
  "demo_local = \<lparr>serverId = [0x31], updatedAt = 10, dirty = True, content = 1\<rparr>"

definition demo_remote :: "int \<Rightarrow> nat remote_record" where
  "demo_remote t = \<lparr>remote_serverId = [0x31], remote_updatedAt = t, remote_fields = 2\<rparr>"

section \<open>Facts about the query cache and the delete mutations\<close>

lemma getQueryData_setQueryData_same:
  "getQueryData key (setQueryData now key u c) =
     (case functionalUpdate u (getQueryData key c) of None \<Rightarrow> getQueryData key c | Some d \<Rightarrow> Some d)"
  by (simp add: getQueryData_def setQueryData_def split: option.splits)

lemma setQueryData_other:
  "k \<noteq> key \<Longrightarrow> setQueryData now key u c k = c k"
  by (simp add: setQueryData_def split: option.splits)

lemma invalidated_invalidateQueries:
  "invalidated key (invalidateQueries key c) \<longleftrightarrow> c key \<noteq> None"
  by (simp add: invalidated_def invalidateQueries_def split: option.splits)

lemma invalidated_setQueryData:
  "functionalUpdate u (getQueryData key c) \<noteq> None \<Longrightarrow> \<not> invalidated key (setQueryData now key u c)"
  by (auto simp add: invalidated_def setQueryData_def split: option.splits)

lemma setQueryData_defined:
  "functionalUpdate u (getQueryData key c) \<noteq> None \<Longrightarrow> setQueryData now key u c key \<noteq> None"
  by (auto simp add: setQueryData_def split: option.splits)

lemma getQueryData_loaded: "getQueryData demo_key (loaded rs) = Some rs"
  by (simp add: getQueryData_def loaded_def)

lemma getQueryData_loading: "getQueryData demo_key loading = None"
  by (simp add: getQueryData_def loading_def)

lemma queryClient_categories_screen: "queryClient (categories_screen n na c) = c"
  by (simp add: categories_screen_def)

lemma queryClient_brands_screen: "queryClient (brands_screen n na c) = c"
  by (simp add: brands_screen_def)

lemma cat_onMutate_data:
  "getQueryData key (queryClient (fst (cat_delete_onMutate key now d st))) =
     Some (case getQueryData key (queryClient st) of
             None \<Rightarrow> []
           | Some cs \<Rightarrow> filter (\<lambda>c. item_id c \<noteq> d) cs)"
  by (simp add: cat_delete_onMutate_def Let_def getQueryData_setQueryData_same
      functionalUpdate_def split: option.splits)

lemma brand_onMutate_data:
  "getQueryData key (queryClient (fst (brand_delete_onMutate key now d st))) =
     Some (case getQueryData key (queryClient st) of
             None \<Rightarrow> []
           | Some bs \<Rightarrow> filter (\<lambda>b. item_id b \<noteq> d) bs)"
  by (simp add: brand_delete_onMutate_def Let_def getQueryData_setQueryData_same
      functionalUpdate_def split: option.splits)

lemma cat_onMutate_frame:
  "k \<noteq> key \<Longrightarrow> queryClient (fst (cat_delete_onMutate key now d st)) k = queryClient st k"
  by (simp add: cat_delete_onMutate_def Let_def setQueryData_other)

lemma brand_onMutate_frame:
  "k \<noteq> key \<Longrightarrow> queryClient (fst (brand_delete_onMutate key now d st)) k = queryClient st k"
  by (simp add: brand_delete_onMutate_def Let_def setQueryData_other)

lemma cat_onMutate_context:
  "snd (cat_delete_onMutate key now d st) = getQueryData key (queryClient st)
   \<and> remote (fst (cat_delete_onMutate key now d st)) = remote st"
  by (simp add: cat_delete_onMutate_def Let_def)

lemma brand_onMutate_context:
  "snd (brand_delete_onMutate key now d st) = getQueryData key (queryClient st)
   \<and> remote (fst (brand_delete_onMutate key now d st)) = remote st"
  by (simp add: brand_delete_onMutate_def Let_def)

lemma cat_delete_rejected:
  "getQueryData key (queryClient (cat_deleteMutation key t1 t2 Rejected d st)) =
     (case getQueryData key (queryClient st) of Some cs \<Rightarrow> Some cs | None \<Rightarrow> Some [])"
  by (simp add: cat_deleteMutation_def cat_delete_onMutate_def cat_delete_onError_def
      showToast_def Let_def getQueryData_setQueryData_same functionalUpdate_def
      split: option.splits)

lemma brand_delete_rejected:
  "getQueryData key (queryClient (brand_deleteMutation key t1 t2 Rejected d st)) =
     (case getQueryData key (queryClient st) of Some bs \<Rightarrow> Some bs | None \<Rightarrow> Some [])"
  by (simp add: brand_deleteMutation_def brand_delete_onMutate_def brand_delete_onError_def
      showToast_def Let_def getQueryData_setQueryData_same functionalUpdate_def
      split: option.splits)

lemma cat_delete_rejected_entry:
  "getQueryData key (queryClient st) = Some cs \<Longrightarrow>
     queryClient (cat_deleteMutation key t1 t2 Rejected d st) key =
       Some \<lparr>data = Some cs, dataUpdatedAt = t2, isInvalidated = False\<rparr>"
  by (simp add: cat_deleteMutation_def cat_delete_onMutate_def cat_delete_onError_def
      showToast_def Let_def setQueryData_def functionalUpdate_def)

lemma brand_delete_rejected_entry:
  "getQueryData key (queryClient st) = Some bs \<Longrightarrow>
     queryClient (brand_deleteMutation key t1 t2 Rejected d st) key =
       Some \<lparr>data = Some bs, dataUpdatedAt = t2, isInvalidated = False\<rparr>"
  by (simp add: brand_deleteMutation_def brand_delete_onMutate_def brand_delete_onError_def
      showToast_def Let_def setQueryData_def functionalUpdate_def)

lemma cat_delete_rejected_frame:
  "k \<noteq> key \<Longrightarrow> queryClient (cat_deleteMutation key t1 t2 Rejected d st) k = queryClient st k"
  by (simp add: cat_deleteMutation_def cat_delete_onMutate_def cat_delete_onError_def
      showToast_def Let_def setQueryData_other split: option.splits)

lemma brand_delete_rejected_frame:
  "k \<noteq> key \<Longrightarrow> queryClient (brand_deleteMutation key t1 t2 Rejected d st) k = queryClient st k"
  by (simp add: brand_deleteMutation_def brand_delete_onMutate_def brand_delete_onError_def
      showToast_def Let_def setQueryData_other split: option.splits)

lemma loaded_entry:
  "loaded rs demo_key = Some \<lparr>data = Some rs, dataUpdatedAt = 0, isInvalidated = False\<rparr>"
  by (simp add: loaded_def)

lemma cat_delete_resolved:
  "invalidated key (queryClient (cat_deleteMutation key t1 t2 (Resolved result) d st))
     \<longleftrightarrow> \<not> success result"
  by (simp add: cat_deleteMutation_def cat_delete_onMutate_def cat_delete_onSuccess_def
      showToast_def Let_def invalidated_invalidateQueries invalidated_setQueryData
      setQueryData_defined functionalUpdate_def split: option.splits)

lemma brand_delete_resolved:
  "invalidated key (queryClient (brand_deleteMutation key t1 t2 (Resolved result) d st))
     \<longleftrightarrow> \<not> success result"
  by (simp add: brand_deleteMutation_def brand_delete_onMutate_def brand_delete_onSuccess_def
      showToast_def Let_def invalidated_invalidateQueries invalidated_setQueryData
      setQueryData_defined functionalUpdate_def split: option.splits)

section \<open>Facts about the create and update mutations and about saving\<close>

lemma cat_create_resolved:
  "queryClient st key \<noteq> None \<Longrightarrow> success result \<Longrightarrow>
     invalidated key (queryClient (cat_createMutation key (Resolved result) d st))"
  by (simp add: cat_createMutation_def cat_create_onSuccess_def cat_resetForm_def showToast_def
      Let_def invalidated_invalidateQueries)

lemma cat_update_resolved:
  "queryClient st key \<noteq> None \<Longrightarrow> success result \<Longrightarrow>
     invalidated key (queryClient (cat_updateMutation key (Resolved result) i d st))"
  by (simp add: cat_updateMutation_def cat_update_onSuccess_def cat_resetForm_def showToast_def
      Let_def invalidated_invalidateQueries)

lemma brand_create_resolved:
  "queryClient st key \<noteq> None \<Longrightarrow> success result \<Longrightarrow>
     invalidated key (queryClient (brand_createMutation key (Resolved result) d st))"
  by (simp add: brand_createMutation_def brand_create_onSuccess_def brand_resetForm_def
      showToast_def Let_def invalidated_invalidateQueries)

lemma brand_update_resolved:
  "queryClient st key \<noteq> None \<Longrightarrow>
     invalidated key (queryClient (brand_updateMutation key (Resolved response) i d st))"
  by (simp add: brand_updateMutation_def brand_update_onSuccess_def brand_resetForm_def
      showToast_def Let_def invalidated_invalidateQueries)

lemma loaded_defined: "loaded rs demo_key \<noteq> None"
  by (simp add: loaded_def)

lemma cat_handleSave_blank:
  "trim (name st) = [] \<or> trim (nameAr st) = [] \<Longrightarrow> cat_handleSave st = (showToast ErrorToast st, None)"
  by (simp add: cat_handleSave_def)

lemma cat_handleSave_issues:
  "snd (cat_handleSave st) \<noteq> None \<longleftrightarrow> trim (name st) \<noteq> [] \<and> trim (nameAr st) \<noteq> []"
  by (simp add: cat_handleSave_def Let_def)

lemma cat_handleSave_payload:
  "snd (cat_handleSave st) = Some req \<Longrightarrow>
     data_name (request_data req) = trim (name st) \<and> data_name_ar (request_data req) = trim (nameAr st)"
  by (auto simp add: cat_handleSave_def Let_def request_data_def split: if_splits option.splits bool.splits)

lemma remote_cat_createMutation:
  "remote (cat_createMutation key answer d st) = remote st @ [CreateCategory d]"
  by (simp add: cat_createMutation_def cat_create_onSuccess_def cat_resetForm_def showToast_def
      Let_def split: outcome.splits)

lemma remote_cat_updateMutation:
  "remote (cat_updateMutation key answer i d st) = remote st @ [UpdateCategory i d]"
  by (simp add: cat_updateMutation_def cat_update_onSuccess_def cat_resetForm_def showToast_def
      Let_def split: outcome.splits)

lemma cat_pressSave_none:
  "snd (cat_handleSave st) = None \<Longrightarrow> cat_pressSave key answer st = showToast ErrorToast st"
  by (auto simp add: cat_pressSave_def cat_handleSave_def Let_def split: if_splits)

lemma cat_pressSave_some:
  "snd (cat_handleSave st) = Some req \<Longrightarrow>
     remote (cat_pressSave key answer st) = remote st @ [cat_call req]"
  by (auto simp add: cat_pressSave_def cat_handleSave_def Let_def cat_call_def
      remote_cat_createMutation remote_cat_updateMutation split: if_splits option.splits bool.splits)

lemma brand_handleSave_issues:
  "snd (brand_handleSave st) \<noteq> None \<longleftrightarrow> trim (name st) \<noteq> [] \<and> trim (nameAr st) \<noteq> []"
  by (simp add: brand_handleSave_def Let_def)

lemma brand_handleSave_payload:
  "snd (brand_handleSave st) = Some req \<Longrightarrow>
     data_name (request_data req) = trim (name st) \<and> data_name_ar (request_data req) = trim (nameAr st)"
  by (auto simp add: brand_handleSave_def Let_def request_data_def split: if_splits option.splits bool.splits)

lemma remote_brand_createMutation:
  "remote (brand_createMutation key answer d st) = remote st @ [CreateCarBrand d]"
  by (simp add: brand_createMutation_def brand_create_onSuccess_def brand_resetForm_def
      showToast_def Let_def split: outcome.splits)

lemma remote_brand_updateMutation:
  "remote (brand_updateMutation key answer i d st) = remote st @ [UpdateCarBrand i d]"
  by (simp add: brand_updateMutation_def brand_update_onSuccess_def brand_resetForm_def
      showToast_def Let_def split: outcome.splits)

lemma brand_pressSave_none:
  "snd (brand_handleSave st) = None \<Longrightarrow> brand_pressSave key answer st = showToast ErrorToast st"
  by (auto simp add: brand_pressSave_def brand_handleSave_def Let_def split: if_splits)

lemma brand_pressSave_some:
  "snd (brand_handleSave st) = Some req \<Longrightarrow>
     remote (brand_pressSave key answer st) = remote st @ [brand_call req]"
  by (auto simp add: brand_pressSave_def brand_handleSave_def Let_def brand_call_def
      remote_brand_createMutation remote_brand_updateMutation split: if_splits option.splits bool.splits)

lemma trim_blank_example: "trim [0x20, 0x9] = []"
  by (simp add: trim_def isWhiteSpace_def)

lemma trim_padded_example: "trim [0x20, 0x45, 0x20] = [0x45]"
  by (simp add: trim_def isWhiteSpace_def)

lemma trim_arabic_example: "trim [0x645] = [0x645]"
  by (simp add: trim_def isWhiteSpace_def)

section \<open>Facts about the staleness windows\<close>

lemma staleTime_bounds: "2 * 60 * 1000 \<le> staleTime site \<and> staleTime site \<le> 5 * 60 * 1000"
  by (cases site) simp_all

lemma staleTime_home:
  "site \<noteq> AdminCategories \<Longrightarrow> site \<noteq> AdminCarBrands \<Longrightarrow>
     staleTime site = (if collection_of site \<in> {Products, Favorites, Banners} then 2 * 60 * 1000 else 5 * 60 * 1000)"
  by (cases site) simp_all

lemma useQuery_fresh:
  "c key = Some q \<Longrightarrow> data q \<noteq> None \<Longrightarrow> \<not> isInvalidated q \<Longrightarrow>
     now < dataUpdatedAt q + staleTime site \<Longrightarrow>
     useQuery user site key now c = \<lparr>returned = data q, fetches = False\<rparr>"
  by (simp add: useQuery_def isStaleByTime_def)

section \<open>Facts about the reconciler and the cart\<close>

lemma lookup_reconcile:
  "lookup_record (remote_serverId r) store = Some l \<Longrightarrow> dirty l \<Longrightarrow>
     lookup_record (remote_serverId r) (reconcile r store) =
       Some (if updatedAt l < remote_updatedAt r then put_clean r else l)"
proof (induction store)
  case Nil
  then show ?case by (simp add: lookup_record_def)
next
  case (Cons x xs)
  show ?case
  proof (cases "serverId x = remote_serverId r")
    case True
    with Cons.prems have "x = l" by (simp add: lookup_record_def)
    with True Cons.prems show ?thesis by (simp add: lookup_record_def put_clean_def)
  next
    case False
    with Cons show ?thesis by (simp add: lookup_record_def)
  qed
qed

lemma round_double_exact:
  assumes "\<bar>n\<bar> < 2 ^ 53"
  shows "round_double n = n"
proof -
  have "bitlen \<bar>n\<bar> \<le> 53"
    using assms by (simp add: bitlen_le_iff_power)
  then have "nat (bitlen \<bar>n\<bar>) - 53 = 0"
    by simp
  then show ?thesis
    by (simp add: round_double_def)
qed

lemma round_double_minus_one:
  assumes "0 < n" and "n \<le> 2 ^ 53"
  shows "round_double (n - 1) = n - 1"
  using assms by (intro round_double_exact) simp

lemma round_double_above_safe:
  "round_double (9007199254740994 - 1) = 9007199254740992 \<and>
   round_double (9007199254740996 - 1) = 9007199254740996 \<and>
   round_double (9007199254740992 + 1) = 9007199254740992"
  by code_simp

lemma removeFromCart_gone: "\<forall>i \<in> set (removeFromCart p cart). product_id i \<noteq> p"
  by (simp add: removeFromCart_def)

lemma find_product_id:
  "find (\<lambda>i. product_id i = p) cart = Some item \<Longrightarrow> product_id item = p \<and> item \<in> set cart"
  by (induction cart) (auto split: if_splits)

lemma decrement_positive:
  assumes "\<forall>i \<in> set cart. 0 < quantity i"
  shows "\<forall>i \<in> set (decrement p cart). 0 < quantity i"
proof (cases "find (\<lambda>i. product_id i = p) cart")
  case None
  with assms show ?thesis by (simp add: decrement_def)
next
  case (Some item)
  with assms show ?thesis
    by (auto simp add: decrement_def press_decrement_def updateQuantity_def removeFromCart_def)
qed

lemma funpow_decrement_positive:
  "\<forall>i \<in> set cart. 0 < quantity i \<Longrightarrow> \<forall>i \<in> set ((decrement p ^^ n) cart). 0 < quantity i"
  by (induction n) (simp_all add: decrement_positive)

lemma find_map_same_id:
  "find (\<lambda>i. product_id i = p) (map (\<lambda>i. if product_id i = p then i\<lparr>quantity := q\<rparr> else i) cart) =
     map_option (\<lambda>i. i\<lparr>quantity := q\<rparr>) (find (\<lambda>i. product_id i = p) cart)"
  by (induction cart) simp_all

lemma decrement_reaching_zero:
  assumes "find (\<lambda>i. product_id i = p) cart = Some item"
    and "round_double (quantity item - 1) \<le> 0"
  shows "decrement p cart = removeFromCart p cart"
  using assms find_product_id [OF assms(1)]
  by (simp add: decrement_def press_decrement_def updateQuantity_def)

lemma decrement_step:
  assumes "find (\<lambda>i. product_id i = p) cart = Some item"
    and "1 < quantity item" and "quantity item \<le> 2 ^ 53"
  shows "find (\<lambda>i. product_id i = p) (decrement p cart) = Some (item\<lparr>quantity := quantity item - 1\<rparr>)"
proof -
  have "round_double (quantity item - 1) = quantity item - 1"
    using assms(2,3) by (intro round_double_minus_one) simp_all
  then show ?thesis
    using assms find_product_id [OF assms(1)]
    by (simp add: decrement_def press_decrement_def updateQuantity_def find_map_same_id)
qed

lemma decrement_before_zero:
  "find (\<lambda>i. product_id i = p) cart = Some item \<Longrightarrow> quantity item \<le> 2 ^ 53 \<Longrightarrow>
     int k < quantity item \<Longrightarrow>
     find (\<lambda>i. product_id i = p) ((decrement p ^^ k) cart) =
       Some (item\<lparr>quantity := quantity item - int k\<rparr>)"
proof (induction k arbitrary: cart item)
  case 0
  then show ?case by simp
next
  case (Suc k)
  have big: "1 < quantity item" using Suc.prems(3) by simp
  have step: "find (\<lambda>i. product_id i = p) (decrement p cart) =
      Some (item\<lparr>quantity := quantity item - 1\<rparr>)"
    using Suc.prems(1) big Suc.prems(2) by (rule decrement_step)
  have "find (\<lambda>i. product_id i = p) ((decrement p ^^ k) (decrement p cart)) =
      Some ((item\<lparr>quantity := quantity item - 1\<rparr>)
              \<lparr>quantity := quantity (item\<lparr>quantity := quantity item - 1\<rparr>) - int k\<rparr>)"
    using step Suc.prems(2,3) by (intro Suc.IH) simp_all
  then show ?case by (simp add: funpow_swap1)
qed

lemma decrement_to_zero:
  assumes "find (\<lambda>i. product_id i = p) cart = Some item"
    and "0 < quantity item" and "quantity item \<le> 2 ^ 53"
  shows "\<forall>i \<in> set ((decrement p ^^ nat (quantity item)) cart). product_id i \<noteq> p"
proof -
  obtain k where k: "nat (quantity item) = Suc k"
    using assms(2) by (cases "nat (quantity item)") simp_all
  then have q: "quantity item = int k + 1" using assms(2) by linarith
  have found: "find (\<lambda>i. product_id i = p) ((decrement p ^^ k) cart) =
      Some (item\<lparr>quantity := quantity item - int k\<rparr>)"
    using assms(1,3) q by (intro decrement_before_zero) simp_all
  have "round_double (quantity (item\<lparr>quantity := quantity item - int k\<rparr>) - 1) = 0"
    using q by (simp add: round_double_exact)
  then have small: "round_double (quantity (item\<lparr>quantity := quantity item - int k\<rparr>) - 1) \<le> 0"
    by simp
  have "decrement p ((decrement p ^^ k) cart) = removeFromCart p ((decrement p ^^ k) cart)"
    using found small by (rule decrement_reaching_zero)
  then show ?thesis using k by (simp add: removeFromCart_gone)
qed

section \<open>The claims\<close>

subsection \<open>C1: a failed delete rolls the cache back\<close>

text \<open>
  C1, in the form that holds of the code. A delete is started from the delete button of
  a listed record, so the cache holds a collection under the screen's query key. On both
  admin screens, when the remote delete call throws, the collection cached under that
  key is afterwards exactly the snapshot taken before the optimistic removal, and the
  queries under other keys are as before. The cache entry itself is not the one from
  before the mutation: the rollback writes the snapshot as a fresh result, so the entry's
  update time is the time of the rollback and its invalidation mark is cleared.
\<close>

theorem failed_delete_restores_snapshot:
  assumes "getQueryData key (queryClient st) = Some cs"
    and "getQueryData key (queryClient bst) = Some bs"
  shows "getQueryData key (queryClient (cat_deleteMutation key t1 t2 Rejected d st)) = Some cs
       \<and> queryClient (cat_deleteMutation key t1 t2 Rejected d st) key =
           Some \<lparr>data = Some cs, dataUpdatedAt = t2, isInvalidated = False\<rparr>
       \<and> getQueryData key (queryClient (brand_deleteMutation key t1 t2 Rejected d bst)) = Some bs
       \<and> queryClient (brand_deleteMutation key t1 t2 Rejected d bst) key =
           Some \<lparr>data = Some bs, dataUpdatedAt = t2, isInvalidated = False\<rparr>
       \<and> (\<forall>k. k \<noteq> key \<longrightarrow>
              queryClient (cat_deleteMutation key t1 t2 Rejected d st) k = queryClient st k
            \<and> queryClient (brand_deleteMutation key t1 t2 Rejected d bst) k = queryClient bst k)"
  using assms
  by (simp add: cat_delete_rejected brand_delete_rejected cat_delete_rejected_entry
      brand_delete_rejected_entry cat_delete_rejected_frame brand_delete_rejected_frame)

text \<open>
  The theorem at a loaded cache on each screen, the list written at time 0, the delete
  of record 1 started at time 1 and failed at time 2: both records are in place again.
\<close>

theorem failed_delete_restores_snapshot_witness:
  "getQueryData demo_key (queryClient (categories_screen [] [] (loaded [engine, brakes]))) =
     Some [engine, brakes]
   \<and> getQueryData demo_key (queryClient (brands_screen [] [] (loaded [brand_one, brand_two]))) =
     Some [brand_one, brand_two]
   \<and> getQueryData demo_key
     (queryClient (cat_deleteMutation demo_key 1 2 Rejected [0x31]
        (categories_screen [] [] (loaded [engine, brakes])))) = Some [engine, brakes]
   \<and> getQueryData demo_key
     (queryClient (brand_deleteMutation demo_key 1 2 Rejected [0x31]
        (brands_screen [] [] (loaded [brand_one, brand_two])))) = Some [brand_one, brand_two]"
proof -
  have a: "getQueryData demo_key (queryClient (categories_screen [] [] (loaded [engine, brakes]))) =
      Some [engine, brakes]"
    by (simp add: queryClient_categories_screen getQueryData_loaded)
  have b: "getQueryData demo_key (queryClient (brands_screen [] [] (loaded [brand_one, brand_two]))) =
      Some [brand_one, brand_two]"
    by (simp add: queryClient_brands_screen getQueryData_loaded)
  show ?thesis
    using failed_delete_restores_snapshot [OF a b, of 1 2 "[0x31]"] a b by simp
qed

text \<open>
  C1 as stated fails on the cache state as a whole. The categories list was written at
  time 0; a delete of category 1 starts at time 1 and its call throws at time 2.
  Afterwards the entry holds the same list but is stamped with time 2, so the cache
  state after the failure is not the state before the mutation.
\<close>

theorem failed_delete_rewrites_entry_counterexample:
  "queryClient (categories_screen [] [] (loaded [engine, brakes])) demo_key =
     Some \<lparr>data = Some [engine, brakes], dataUpdatedAt = 0, isInvalidated = False\<rparr>
   \<and> queryClient (cat_deleteMutation demo_key 1 2 Rejected [0x31]
        (categories_screen [] [] (loaded [engine, brakes]))) demo_key =
     Some \<lparr>data = Some [engine, brakes], dataUpdatedAt = 2, isInvalidated = False\<rparr>
   \<and> queryClient (cat_deleteMutation demo_key 1 2 Rejected [0x31]
        (categories_screen [] [] (loaded [engine, brakes]))) demo_key
     \<noteq> queryClient (categories_screen [] [] (loaded [engine, brakes])) demo_key"
proof -
  have a: "getQueryData demo_key (queryClient (categories_screen [] [] (loaded [engine, brakes]))) =
      Some [engine, brakes]"
    by (simp add: queryClient_categories_screen getQueryData_loaded)
  have before: "queryClient (categories_screen [] [] (loaded [engine, brakes])) demo_key =
      Some \<lparr>data = Some [engine, brakes], dataUpdatedAt = 0, isInvalidated = False\<rparr>"
    by (simp add: queryClient_categories_screen loaded_entry)
  have after: "queryClient (cat_deleteMutation demo_key 1 2 Rejected [0x31]
        (categories_screen [] [] (loaded [engine, brakes]))) demo_key =
      Some \<lparr>data = Some [engine, brakes], dataUpdatedAt = 2, isInvalidated = False\<rparr>"
    using a by (rule cat_delete_rejected_entry)
  show ?thesis using before after by simp
qed

subsection \<open>C2: the optimistic removal\<close>

text \<open>
  C2. On both admin screens \<open>onMutate\<close> turns the collection cached under the screen's
  key into the previous collection without the records whose id is the deleted id, every
  other record kept as it was and in its place; a cache that held no collection holds the
  empty list afterwards. The queries under other keys are not touched. \<open>onMutate\<close>
  returns the previous collection as the snapshot, and it makes no remote call: the
  removal is in the cache before the delete call is made.
\<close>

theorem optimistic_delete_removes_id:
  "getQueryData key (queryClient (fst (cat_delete_onMutate key now d st))) =
     Some (case getQueryData key (queryClient st) of
             None \<Rightarrow> []
           | Some cs \<Rightarrow> filter (\<lambda>c. item_id c \<noteq> d) cs)
   \<and> getQueryData key (queryClient (fst (brand_delete_onMutate key now d bst))) =
     Some (case getQueryData key (queryClient bst) of
             None \<Rightarrow> []
           | Some bs \<Rightarrow> filter (\<lambda>b. item_id b \<noteq> d) bs)
   \<and> (\<forall>k. k \<noteq> key \<longrightarrow>
          queryClient (fst (cat_delete_onMutate key now d st)) k = queryClient st k
        \<and> queryClient (fst (brand_delete_onMutate key now d bst)) k = queryClient bst k)
   \<and> snd (cat_delete_onMutate key now d st) = getQueryData key (queryClient st)
   \<and> snd (brand_delete_onMutate key now d bst) = getQueryData key (queryClient bst)
   \<and> remote (fst (cat_delete_onMutate key now d st)) = remote st
   \<and> remote (fst (brand_delete_onMutate key now d bst)) = remote bst"
  by (simp add: cat_onMutate_data brand_onMutate_data cat_onMutate_frame brand_onMutate_frame
      cat_onMutate_context brand_onMutate_context)

text \<open>
  The theorem at two caches: deleting id 1 from categories 1, 2, 1 leaves category 2;
  on a car brands cache without data the list becomes empty; another key stays absent.
\<close>

theorem optimistic_delete_removes_id_witness:
  "getQueryData demo_key
     (queryClient (fst (cat_delete_onMutate demo_key 7 [0x31]
        (categories_screen [] [] (loaded [engine, brakes, engine]))))) = Some [brakes]
   \<and> getQueryData demo_key
     (queryClient (fst (brand_delete_onMutate demo_key 7 [0x31]
        (brands_screen [] [] loading)))) = Some []
   \<and> other_key \<noteq> demo_key
   \<and> queryClient (fst (cat_delete_onMutate demo_key 7 [0x31]
        (categories_screen [] [] (loaded [engine, brakes, engine])))) other_key = None"
proof -
  note T = optimistic_delete_removes_id
      [of demo_key 7 "[0x31]" "categories_screen [] [] (loaded [engine, brakes, engine])"
          "brands_screen [] [] loading"]
  have k: "other_key \<noteq> demo_key"
    by (simp add: other_key_def demo_key_def)
  have o: "loaded [engine, brakes, engine] other_key = None"
    by (simp add: loaded_def other_key_def demo_key_def)
  have "queryClient (fst (cat_delete_onMutate demo_key 7 [0x31]
        (categories_screen [] [] (loaded [engine, brakes, engine])))) other_key = None"
    using T k o by (simp add: queryClient_categories_screen)
  moreover have "getQueryData demo_key
     (queryClient (fst (cat_delete_onMutate demo_key 7 [0x31]
        (categories_screen [] [] (loaded [engine, brakes, engine]))))) = Some [brakes]"
    using T
    by (simp add: queryClient_categories_screen getQueryData_loaded engine_def brakes_def)
  moreover have "getQueryData demo_key
     (queryClient (fst (brand_delete_onMutate demo_key 7 [0x31]
        (brands_screen [] [] loading)))) = Some []"
    using T by (simp add: queryClient_brands_screen getQueryData_loading)
  ultimately show ?thesis using k by simp
qed

subsection \<open>C3: invalidation after a successful mutation\<close>

text \<open>
  C3, in the form that holds of the code. On both admin screens, where the collection's
  query is in the cache: a create or update that completes with a successful result
  leaves the query invalidated (the car brand update whenever its call resolves), so the
  next read refetches. A delete differs: after a delete whose call resolves, the query
  is invalidated exactly when the result is not successful; after a successful delete
  the optimistic state stays in the cache and is not invalidated.
\<close>

theorem successful_mutation_invalidation:
  assumes "queryClient st key \<noteq> None" and "queryClient bst key \<noteq> None"
  shows "(success result \<longrightarrow>
            invalidated key (queryClient (cat_createMutation key (Resolved result) cd st))
          \<and> invalidated key (queryClient (cat_updateMutation key (Resolved result) i cd st))
          \<and> invalidated key (queryClient (brand_createMutation key (Resolved result) bd bst)))
       \<and> invalidated key (queryClient (brand_updateMutation key (Resolved response) i bd bst))
       \<and> (invalidated key (queryClient (cat_deleteMutation key t1 t2 (Resolved result) d st))
            \<longleftrightarrow> \<not> success result)
       \<and> (invalidated key (queryClient (brand_deleteMutation key t1 t2 (Resolved result) d bst))
            \<longleftrightarrow> \<not> success result)"
  using assms
  by (simp add: cat_create_resolved cat_update_resolved brand_create_resolved
      brand_update_resolved cat_delete_resolved brand_delete_resolved)

text \<open>
  The theorem at loaded caches: a successful category create and a resolved car brand
  update leave the query invalidated, a successful car brand delete does not, and a
  category delete that resolves without success does.
\<close>

theorem successful_mutation_invalidation_witness:
  "queryClient (categories_screen [] [] (loaded [engine, brakes])) demo_key \<noteq> None
   \<and> queryClient (brands_screen [] [] (loaded [brand_one])) demo_key \<noteq> None
   \<and> success ok_result
   \<and> invalidated demo_key (queryClient (cat_createMutation demo_key (Resolved ok_result)
        \<lparr>data_name = [0x45], data_name_ar = [0x645], data_parent_id = None, data_icon = None,
         data_image_data = None\<rparr>
        (categories_screen [] [] (loaded [engine, brakes]))))
   \<and> invalidated demo_key (queryClient (brand_updateMutation demo_key (Resolved ()) [0x31]
        \<lparr>data_name = [0x45], data_name_ar = [0x645], data_logo = None\<rparr>
        (brands_screen [] [] (loaded [brand_one]))))
   \<and> \<not> invalidated demo_key (queryClient (brand_deleteMutation demo_key 1 2 (Resolved ok_result)
        [0x31] (brands_screen [] [] (loaded [brand_one]))))
   \<and> invalidated demo_key (queryClient (cat_deleteMutation demo_key 1 2 (Resolved failed_result)
        [0x31] (categories_screen [] [] (loaded [engine, brakes]))))"
proof -
  have a: "queryClient (categories_screen [] [] (loaded [engine, brakes])) demo_key \<noteq> None"
    by (simp add: queryClient_categories_screen loaded_defined)
  have b: "queryClient (brands_screen [] [] (loaded [brand_one])) demo_key \<noteq> None"
    by (simp add: queryClient_brands_screen loaded_defined)
  have s: "success ok_result"
    by (simp add: ok_result_def)
  have f: "\<not> success failed_result"
    by (simp add: failed_result_def)
  show ?thesis
    using successful_mutation_invalidation [OF a b, of ok_result _ _ _ "()" 1 2 "[0x31]"]
      successful_mutation_invalidation [OF a b, of failed_result _ _ _ "()" 1 2 "[0x31]"] a b s f
    by simp
qed

text \<open>
  C3 as stated fails for delete: after a delete of category 1 that completes
  successfully, the categories query is not invalidated.
\<close>

theorem successful_delete_not_invalidated_counterexample:
  "success ok_result
   \<and> \<not> invalidated demo_key (queryClient (cat_deleteMutation demo_key 1 2 (Resolved ok_result)
        [0x31] (categories_screen [] [] (loaded [engine, brakes]))))"
  by (simp add: cat_delete_resolved ok_result_def)

subsection \<open>C4: the conflict rule of the pull\<close>

text \<open>
  C4. When a pull brings a remote record whose \<open>serverId\<close> a dirty local record has,
  the store afterwards holds under that \<open>serverId\<close> the remote record (marked clean)
  if the remote \<open>updatedAt\<close> is strictly greater, and the local dirty record, unchanged,
  otherwise; so with equal timestamps the local copy is kept.
\<close>

theorem pull_conflict_rule:
  assumes "lookup_record (remote_serverId r) store = Some l" and "dirty l"
  shows "lookup_record (remote_serverId r) (reconcile r store) =
           Some (if updatedAt l < remote_updatedAt r then put_clean r else l)"
  using assms by (rule lookup_reconcile)

text \<open>
  The theorem at a dirty local record of time 10: remote records of time 10 and 9 leave
  it in place, a remote record of time 11 replaces it.
\<close>

theorem pull_conflict_rule_witness:
  "lookup_record (remote_serverId (demo_remote 10)) [demo_local] = Some demo_local
   \<and> dirty demo_local
   \<and> lookup_record [0x31] (reconcile (demo_remote 10) [demo_local]) = Some demo_local
   \<and> lookup_record [0x31] (reconcile (demo_remote 9) [demo_local]) = Some demo_local
   \<and> lookup_record [0x31] (reconcile (demo_remote 11) [demo_local]) = Some (put_clean (demo_remote 11))"
proof -
  have a: "lookup_record (remote_serverId (demo_remote t)) [demo_local] = Some demo_local" for t
    by (simp add: lookup_record_def demo_remote_def demo_local_def)
  have d: "dirty demo_local"
    by (simp add: demo_local_def)
  have u: "updatedAt demo_local = 10"
    by (simp add: demo_local_def)
  have s: "remote_serverId (demo_remote t) = [0x31]" "remote_updatedAt (demo_remote t) = t" for t
    by (simp_all add: demo_remote_def)
  show ?thesis
    using pull_conflict_rule [OF a d, of 10] pull_conflict_rule [OF a d, of 9]
      pull_conflict_rule [OF a d, of 11] a [of 10] d
    by (simp add: s u)
qed

subsection \<open>C5: staleness windows\<close>

text \<open>
  C5, in the form that holds of the code. Every query's staleness window lies between
  2 and 5 minutes. In the home screen hook and the categories tree hook, the queries of
  products, favorites and banners have the 2 minute window and those of categories, car
  brands, car models, product brands and partners the 5 minute window. The list queries
  of the two admin screens (categories, car brands) have the 2 minute window. A read
  within the window of a query that holds data and is not invalidated returns the
  cached data and starts no fetch.
\<close>

theorem staleness_windows:
  "2 * 60 * 1000 \<le> staleTime site \<and> staleTime site \<le> 5 * 60 * 1000
   \<and> (site \<noteq> AdminCategories \<and> site \<noteq> AdminCarBrands \<longrightarrow>
        staleTime site =
          (if collection_of site \<in> {Products, Favorites, Banners} then 2 * 60 * 1000
           else 5 * 60 * 1000))
   \<and> staleTime AdminCategories = 2 * 60 * 1000
   \<and> staleTime AdminCarBrands = 2 * 60 * 1000
   \<and> (c key = Some q \<and> data q \<noteq> None \<and> \<not> isInvalidated q
        \<and> now < dataUpdatedAt q + staleTime site \<longrightarrow>
        useQuery user site key now c = \<lparr>returned = data q, fetches = False\<rparr>)"
  using staleTime_bounds [of site] staleTime_home [of site] useQuery_fresh [of c key q now site user]
  by simp

text \<open>
  The theorem at the home screen's categories and products queries, and at a read of the
  products query one millisecond before its window ends.
\<close>

theorem staleness_windows_witness:
  "staleTime HomeCategories = 300000
   \<and> staleTime HomeProducts = 120000
   \<and> useQuery True HomeProducts demo_key 119999 (loaded [engine]) =
       \<lparr>returned = Some [engine], fetches = False\<rparr>"
proof -
  have e: "loaded [engine] demo_key =
      Some \<lparr>data = Some [engine], dataUpdatedAt = 0, isInvalidated = False\<rparr>"
    by (simp add: loaded_def)
  show ?thesis
    using staleness_windows [of HomeCategories]
      staleness_windows [of HomeProducts "loaded [engine]" demo_key
        "\<lparr>data = Some [engine], dataUpdatedAt = 0, isInvalidated = False\<rparr>" 119999 True] e
    by simp
qed

text \<open>
  C5 as stated fails for the categories collection: the admin screen's categories query
  has the same 2 minute window as the products query, not a longer one. It also fails for
  a read of an invalidated query: one millisecond after the data was written, the read
  of the invalidated categories query starts a fetch.
\<close>

theorem admin_categories_short_window_counterexample:
  "collection_of AdminCategories = Categories \<and> staleTime AdminCategories = 120000
   \<and> collection_of HomeProducts = Products \<and> staleTime HomeProducts = 120000
   \<and> \<not> staleTime HomeProducts < staleTime AdminCategories
   \<and> useQuery True HomeCategories demo_key 1 (invalidateQueries demo_key (loaded [engine])) =
       \<lparr>returned = Some [engine], fetches = True\<rparr>"
  by (simp add: useQuery_def invalidateQueries_def loaded_def isStaleByTime_def)

subsection \<open>C6: decrementing a cart item to zero\<close>

text \<open>
  C6. In a cart whose quantities are all positive, after any number of decrements of a
  product \<open>p\<close>: no record of the cart has quantity 0; and when the item shown for \<open>p\<close>
  is decremented to 0 (the minus button asks for a quantity that is not positive), the
  next state of the cart has no record of \<open>p\<close>. For an item of quantity \<open>q\<close> up to
  \<open>2^53\<close>, where subtracting 1 is exact, this happens at the \<open>q\<close>-th decrement: after
  fewer decrements the item is in the cart with the quantity lowered by their number,
  after \<open>q\<close> decrements no record of \<open>p\<close> is left.
\<close>

theorem decrement_to_zero_removes:
  assumes "\<forall>i \<in> set cart. 0 < quantity i"
  shows "(\<forall>n. \<forall>i \<in> set ((decrement p ^^ n) cart). quantity i \<noteq> 0)
       \<and> (\<forall>n item. find (\<lambda>i. product_id i = p) ((decrement p ^^ n) cart) = Some item
              \<and> round_double (quantity item - 1) \<le> 0 \<longrightarrow>
            (\<forall>i \<in> set ((decrement p ^^ Suc n) cart). product_id i \<noteq> p))
       \<and> (\<forall>item. find (\<lambda>i. product_id i = p) cart = Some item \<and> quantity item \<le> 2 ^ 53 \<longrightarrow>
            (\<forall>k. int k < quantity item \<longrightarrow>
               find (\<lambda>i. product_id i = p) ((decrement p ^^ k) cart) =
                 Some (item\<lparr>quantity := quantity item - int k\<rparr>))
          \<and> (\<forall>i \<in> set ((decrement p ^^ nat (quantity item)) cart). product_id i \<noteq> p))"
proof (intro conjI allI impI)
  fix n
  show "\<forall>i \<in> set ((decrement p ^^ n) cart). quantity i \<noteq> 0"
    using funpow_decrement_positive [OF assms, of n p] by fastforce
next
  fix n item
  assume h: "find (\<lambda>i. product_id i = p) ((decrement p ^^ n) cart) = Some item
      \<and> round_double (quantity item - 1) \<le> 0"
  have "decrement p ((decrement p ^^ n) cart) = removeFromCart p ((decrement p ^^ n) cart)"
    using h by (intro decrement_reaching_zero [of p _ item]) simp_all
  then show "\<forall>i \<in> set ((decrement p ^^ Suc n) cart). product_id i \<noteq> p"
    by (simp add: removeFromCart_gone)
next
  fix item k
  assume h: "find (\<lambda>i. product_id i = p) cart = Some item \<and> quantity item \<le> 2 ^ 53"
    and k: "int k < quantity item"
  show "find (\<lambda>i. product_id i = p) ((decrement p ^^ k) cart) =
      Some (item\<lparr>quantity := quantity item - int k\<rparr>)"
    using h k by (intro decrement_before_zero) simp_all
next
  fix item
  assume h: "find (\<lambda>i. product_id i = p) cart = Some item \<and> quantity item \<le> 2 ^ 53"
  then have f: "find (\<lambda>i. product_id i = p) cart = Some item"
    and b: "quantity item \<le> 2 ^ 53"
    by simp_all
  have pos: "0 < quantity item"
    using assms find_product_id [OF f] by blast
  show "\<forall>i \<in> set ((decrement p ^^ nat (quantity item)) cart). product_id i \<noteq> p"
    using f pos b by (rule decrement_to_zero)
qed

text \<open>
  The theorem at a cart with two of product 1 and one of product 2: one decrement lowers
  the quantity to 1, the second removes the record and leaves the other product alone.
\<close>

theorem decrement_to_zero_removes_witness:
  "find (\<lambda>i. product_id i = [0x31]) demo_cart = Some \<lparr>product_id = [0x31], quantity = 2\<rparr>
   \<and> quantity \<lparr>product_id = [0x31], quantity = 2\<rparr> \<le> 2 ^ 53
   \<and> find (\<lambda>i. product_id i = [0x31]) ((decrement [0x31] ^^ 1) demo_cart) =
       Some \<lparr>product_id = [0x31], quantity = 1\<rparr>
   \<and> find (\<lambda>i. product_id i = [0x31]) ((decrement [0x31] ^^ 2) demo_cart) = None
   \<and> (decrement [0x31] ^^ 2) demo_cart = [\<lparr>product_id = [0x32], quantity = 1\<rparr>]"
proof -
  have inv: "\<forall>i \<in> set demo_cart. 0 < quantity i"
    by (simp add: demo_cart_def)
  have f: "find (\<lambda>i. product_id i = [0x31]) demo_cart = Some \<lparr>product_id = [0x31], quantity = 2\<rparr>"
    by (simp add: demo_cart_def)
  have b: "quantity \<lparr>product_id = [0x31], quantity = 2\<rparr> \<le> 2 ^ 53"
    by simp
  note T = decrement_to_zero_removes [OF inv, of "[0x31]", THEN conjunct2, THEN conjunct2,
      rule_format, OF conjI [OF f b]]
  have one: "find (\<lambda>i. product_id i = [0x31]) ((decrement [0x31] ^^ 1) demo_cart) =
       Some \<lparr>product_id = [0x31], quantity = 1\<rparr>"
    using T [THEN conjunct1, rule_format, of 1] by simp
  have gone: "\<forall>i \<in> set ((decrement [0x31] ^^ 2) demo_cart). product_id i \<noteq> [0x31]"
    using T [THEN conjunct2] by simp
  then have none: "find (\<lambda>i. product_id i = [0x31]) ((decrement [0x31] ^^ 2) demo_cart) = None"
    by (simp add: find_None_iff)
  have r1: "round_double 1 = 1" and r0: "round_double 0 = 0"
    by (simp_all add: round_double_exact)
  have d1: "decrement [0x31] demo_cart =
      [\<lparr>product_id = [0x31], quantity = 1\<rparr>, \<lparr>product_id = [0x32], quantity = 1\<rparr>]"
    by (simp add: demo_cart_def decrement_def press_decrement_def updateQuantity_def r1)
  have d2: "decrement [0x31]
      [\<lparr>product_id = [0x31], quantity = 1\<rparr>, \<lparr>product_id = [0x32], quantity = 1\<rparr>] =
      [\<lparr>product_id = [0x32], quantity = 1\<rparr>]"
    by (simp add: decrement_def press_decrement_def updateQuantity_def removeFromCart_def r0)
  have two: "(decrement [0x31] ^^ 2) demo_cart = [\<lparr>product_id = [0x32], quantity = 1\<rparr>]"
    by (simp add: numeral_2_eq_2 d1 d2)
  show ?thesis using f b one none two by simp
qed

subsection \<open>C8: the parsing getters\<close>




subsection \<open>C9: saving needs both names\<close>

text \<open>
  C9. On both admin screens \<open>handleSave\<close> issues a create or update request exactly
  when the English and the Arabic name are both non-blank after trimming. When it issues
  none, pressing Save makes no remote call and leaves the query cache as it was. When it
  issues one, the payload carries the trimmed names, and the one remote call made is the
  create or update of that request.
\<close>

theorem handleSave_needs_both_names:
  "(snd (cat_handleSave st) \<noteq> None \<longleftrightarrow> trim (name st) \<noteq> [] \<and> trim (nameAr st) \<noteq> [])
   \<and> (snd (cat_handleSave st) = None \<longrightarrow>
          queryClient (cat_pressSave key answer st) = queryClient st
        \<and> remote (cat_pressSave key answer st) = remote st)
   \<and> (\<forall>req. snd (cat_handleSave st) = Some req \<longrightarrow>
          data_name (request_data req) = trim (name st)
        \<and> data_name_ar (request_data req) = trim (nameAr st)
        \<and> remote (cat_pressSave key answer st) = remote st @ [cat_call req])
   \<and> (snd (brand_handleSave bst) \<noteq> None \<longleftrightarrow> trim (name bst) \<noteq> [] \<and> trim (nameAr bst) \<noteq> [])
   \<and> (snd (brand_handleSave bst) = None \<longrightarrow>
          queryClient (brand_pressSave key answer bst) = queryClient bst
        \<and> remote (brand_pressSave key answer bst) = remote bst)
   \<and> (\<forall>req. snd (brand_handleSave bst) = Some req \<longrightarrow>
          data_name (request_data req) = trim (name bst)
        \<and> data_name_ar (request_data req) = trim (nameAr bst)
        \<and> remote (brand_pressSave key answer bst) = remote bst @ [brand_call req])"
  by (simp add: cat_handleSave_issues cat_handleSave_payload cat_pressSave_none cat_pressSave_some
      brand_handleSave_issues brand_handleSave_payload brand_pressSave_none brand_pressSave_some
      showToast_def del: not_None_eq)

text \<open>
  The theorem at a categories form whose English name is white space only (no request,
  cache and call log unchanged) and at a car brands form with a padded name (a create
  request with the trimmed name, sent as the only call).
\<close>

theorem handleSave_needs_both_names_witness:
  "snd (cat_handleSave (categories_screen [0x20, 0x9] [0x645] (loaded [engine]))) = None
   \<and> queryClient (cat_pressSave demo_key Rejected
        (categories_screen [0x20, 0x9] [0x645] (loaded [engine]))) = loaded [engine]
   \<and> remote (cat_pressSave demo_key Rejected
        (categories_screen [0x20, 0x9] [0x645] (loaded [engine]))) = []
   \<and> snd (brand_handleSave (brands_screen [0x20, 0x45, 0x20] [0x645] loading)) =
       Some (CreateRequest \<lparr>data_name = [0x45], data_name_ar = [0x645], data_logo = None\<rparr>)
   \<and> remote (brand_pressSave demo_key Rejected
        (brands_screen [0x20, 0x45, 0x20] [0x645] loading)) =
       [CreateCarBrand \<lparr>data_name = [0x45], data_name_ar = [0x645], data_logo = None\<rparr>]"
proof -
  note T = handleSave_needs_both_names
      [of "categories_screen [0x20, 0x9] [0x645] (loaded [engine])" demo_key Rejected
          "brands_screen [0x20, 0x45, 0x20] [0x645] loading"]
  have blank: "trim (name (categories_screen [0x20, 0x9] [0x645] (loaded [engine]))) = []"
    by (simp add: categories_screen_def trim_blank_example)
  have none: "snd (cat_handleSave (categories_screen [0x20, 0x9] [0x645] (loaded [engine]))) = None"
    using T blank by simp
  have kept: "queryClient (cat_pressSave demo_key Rejected
        (categories_screen [0x20, 0x9] [0x645] (loaded [engine]))) = loaded [engine]
     \<and> remote (cat_pressSave demo_key Rejected
        (categories_screen [0x20, 0x9] [0x645] (loaded [engine]))) = []"
    using T none by (simp add: categories_screen_def)
  have req: "snd (brand_handleSave (brands_screen [0x20, 0x45, 0x20] [0x645] loading)) =
       Some (CreateRequest \<lparr>data_name = [0x45], data_name_ar = [0x645], data_logo = None\<rparr>)"
    by (simp add: brand_handleSave_def brands_screen_def trim_padded_example trim_arabic_example)
  have sent: "remote (brand_pressSave demo_key Rejected
        (brands_screen [0x20, 0x45, 0x20] [0x645] loading)) =
       [CreateCarBrand \<lparr>data_name = [0x45], data_name_ar = [0x645], data_logo = None\<rparr>]"
    using T req by (simp add: brand_call_def brands_screen_def)
  show ?thesis using none kept req sent by simp
qed

subsection \<open>C10: the order total\<close>

text \<open>
  C10. Under a cart that has items, the total row of the order summary shows
  \<open>getSubtotal()\<close> plus the shipping cost of 150 (to zero decimals, as every row); two
  non-empty carts with the same subtotal show the same total, whatever their items,
  savings and other props.
\<close>

theorem order_total_is_subtotal_plus_shipping:
  assumes "cartItems props \<noteq> []"
  shows "map_option total_row (ListFooterComponent props) =
           Some (ToFixed0 (getSubtotal props () + 150))
       \<and> (cartItems other \<noteq> [] \<and> getSubtotal other () = getSubtotal props () \<longrightarrow>
            map_option total_row (ListFooterComponent other) =
              map_option total_row (ListFooterComponent props))"
  using assms by (simp add: ListFooterComponent_def OrderSummary_def SHIPPING_COST_def)

text \<open>
  The theorem at a cart with subtotal 100, and at another cart with the same subtotal,
  one item and no savings: both show 250.
\<close>

theorem order_total_is_subtotal_plus_shipping_witness:
  "cartItems demo_props \<noteq> []
   \<and> map_option total_row (ListFooterComponent demo_props) = Some (ToFixed0 250)
   \<and> map_option total_row
        (ListFooterComponent
           (demo_props\<lparr>cartItems := [\<lparr>product_id = [0x33], quantity = 7\<rparr>],
                        getTotalSavings := (\<lambda>u. 0)\<rparr>)) = Some (ToFixed0 250)"
proof -
  have n: "cartItems demo_props \<noteq> []"
    by (simp add: demo_props_def demo_cart_def)
  show ?thesis
    using order_total_is_subtotal_plus_shipping
      [OF n, of "demo_props\<lparr>cartItems := [\<lparr>product_id = [0x33], quantity = 7\<rparr>],
                              getTotalSavings := (\<lambda>u. 0)\<rparr>"] n
    by (simp add: demo_props_def)
qed

end
